theory Spec2Isabelle
  imports Main "HOL-Library.Word" "HOL-Library.AList"
begin

section \<open>JavaScript values used by the authentication flow\<close>

text \<open>
  A JavaScript string is a sequence of UTF-16 code units; \<open>length\<close> counts code units and
  a regular expression without the \<open>u\<close> flag inspects code units.  String literals of the
  source are written \<open>js ''...''\<close>.
\<close>

type_synonym jsstring = "16 word list"

definition js :: "string \<Rightarrow> jsstring" where
  "js s = map (\<lambda>c. of_nat (of_char c)) s"

text \<open>
  A property of a response object, or a piece of state typed \<open>T | null\<close>: the property
  may be missing (reading it gives \<open>undefined\<close>), may be \<open>null\<close>, or holds a value of
  the expected type.
\<close>

datatype 'a jsopt = Undefined | Null | Defined 'a

text \<open>
  Modelled from the spec: the \<open>User\<close> type of \<open>@/types/types\<close> (identifier, username,
  email; further profile fields are opaque to this code, which reads only \<open>username\<close>).
\<close>

record User =
  user_id :: int
  username :: jsstring
  user_email :: jsstring

text \<open>\<open>!!user\<close>: an object is truthy, \<open>null\<close> and \<open>undefined\<close> are falsy.\<close>

fun truthy_user :: "User jsopt \<Rightarrow> bool" where
  "truthy_user (Defined u) = True"
| "truthy_user Null = False"
| "truthy_user Undefined = False"

text \<open>\<open>!!token\<close> for a string-valued property: the empty string is falsy as well.\<close>

fun truthy_string :: "jsstring jsopt \<Rightarrow> bool" where
  "truthy_string (Defined s) = (s \<noteq> [])"
| "truthy_string Null = False"
| "truthy_string Undefined = False"

text \<open>
  \<open>localStorage.setItem\<close> stores the string conversion of its second argument.
\<close>

fun String :: "jsstring jsopt \<Rightarrow> jsstring" where
  "String (Defined s) = s"
| "String Null = js ''null''"
| "String Undefined = js ''undefined''"

text \<open>
  A thrown value, as far as the code looks at it: \<open>error.message\<close>,
  \<open>error.response?.data?.error\<close> and \<open>error.response?.data?.message\<close>
  (\<open>None\<close> where the path yields \<open>undefined\<close>).
\<close>

record js_error =
  message :: "jsstring option"
  response_data_error :: "jsstring option"
  response_data_message :: "jsstring option"

text \<open>\<open>x || fallback\<close> for a string-or-undefined \<open>x\<close>.\<close>

fun or_else :: "jsstring option \<Rightarrow> jsstring \<Rightarrow> jsstring" where
  "or_else None d = d"
| "or_else (Some s) d = (if s = [] then d else s)"

text \<open>\<open>new Error(msg)\<close>.\<close>

definition new_Error :: "jsstring \<Rightarrow> js_error" where
  "new_Error msg = \<lparr>message = Some msg, response_data_error = None, response_data_message = None\<rparr>"

datatype 'a promise = Resolved 'a | Rejected js_error

text \<open>
  What the JavaScript platform supplies and the repository does not define: the
  \<open>TypeError\<close> thrown when \<open>.username\<close> is read from \<open>undefined\<close> or \<open>null\<close> (its message
  is engine specific) and \<open>JSON.stringify\<close> on a user object.
\<close>

record platform =
  cannot_read_username :: "User jsopt \<Rightarrow> js_error"
  JSON_stringify :: "User \<Rightarrow> jsstring"

section \<open>Data exchanged with the backend and the notification channel\<close>

text \<open>
  The credential objects, with the fields the submit handlers put into them (the
  declarations in \<open>@/types/types\<close> are taken from these call sites).
\<close>

record LoginCredentials =
  cred_email :: jsstring
  cred_password :: jsstring

record RegisterCredentials =
  rcred_username :: jsstring
  rcred_email :: jsstring
  rcred_password :: jsstring

datatype body = LoginBody LoginCredentials | RegisterBody RegisterCredentials

text \<open>\<open>res.data\<close>, as far as the code reads it: \<open>res.data.token\<close> and \<open>res.data.user\<close>.\<close>

record response_data =
  data_token :: "jsstring jsopt"
  data_user :: "User jsopt"

datatype variant = Default | Destructive

record toast =
  title :: jsstring
  description :: jsstring
  variant :: variant

datatype logged = LoggedError js_error | LoggedData response_data

section \<open>Component state and effects\<close>

datatype tab = LoginTab | RegisterTab

record loginForm =
  login_email :: jsstring
  login_password :: jsstring

record registerForm =
  reg_username :: jsstring
  reg_email :: jsstring
  reg_password :: jsstring
  reg_confirmPassword :: jsstring

text \<open>
  \<open>Record<string, string>\<close>: an object used as a dictionary, kept as an association
  list in insertion order (\<open>Object.keys\<close> is the list of first components).
\<close>

type_synonym errors = "(string \<times> jsstring) list"

text \<open>
  Every observable step of the code is an effect: a React state setter, a call of a
  collaborator (network, mock API service, storage, toast, console) or a callback of the
  embedding component.  An operation yields its effects in program order.
\<close>

datatype effect =
    SetUser "User jsopt"
  | SetIsLoading bool
  | GetCurrentUser
  | ApiLogout
  | AxiosPost string body bool
  | LocalStorageSetItem string jsstring
  | Toast toast
  | ConsoleError string logged
  | PreventDefault
  | SetFormErrors errors
  | SetServerError "jsstring option"
  | SetActiveTab tab
  | SetLoginForm loginForm
  | SetRegisterForm registerForm
  | OnClose

text \<open>
  The state the effects act on: the two \<open>useState\<close> cells of \<open>AuthProvider\<close>, the
  browser's \<open>localStorage\<close>, and the five \<open>useState\<close> cells of \<open>AuthForms\<close>.
\<close>

record world =
  user :: "User jsopt"
  isLoading :: bool
  localStorage :: "string \<rightharpoonup> jsstring"
  activeTab :: tab
  loginForm :: loginForm
  registerForm :: registerForm
  formErrors :: errors
  serverError :: "jsstring option"

text \<open>
  The state at creation: \<open>useState<User | null>(null)\<close>, \<open>useState(true)\<close>, the given
  default tab, empty forms, no errors.  The storage is whatever the browser holds.
\<close>

definition initial_world :: "(string \<rightharpoonup> jsstring) \<Rightarrow> tab \<Rightarrow> world" where
  "initial_world storage defaultTab =
     \<lparr>user = Null, isLoading = True, localStorage = storage, activeTab = defaultTab,
      loginForm = \<lparr>login_email = [], login_password = []\<rparr>,
      registerForm = \<lparr>reg_username = [], reg_email = [], reg_password = [],
                      reg_confirmPassword = []\<rparr>,
      formErrors = [], serverError = None\<rparr>"

fun apply_effect :: "effect \<Rightarrow> world \<Rightarrow> world" where
  "apply_effect (SetUser u) w = w\<lparr>user := u\<rparr>"
| "apply_effect (SetIsLoading b) w = w\<lparr>isLoading := b\<rparr>"
| "apply_effect (LocalStorageSetItem k v) w = w\<lparr>localStorage := (localStorage w)(k \<mapsto> v)\<rparr>"
| "apply_effect (SetFormErrors es) w = w\<lparr>formErrors := es\<rparr>"
| "apply_effect (SetServerError e) w = w\<lparr>serverError := e\<rparr>"
| "apply_effect (SetActiveTab t) w = w\<lparr>activeTab := t\<rparr>"
| "apply_effect (SetLoginForm f) w = w\<lparr>loginForm := f\<rparr>"
| "apply_effect (SetRegisterForm f) w = w\<lparr>registerForm := f\<rparr>"
| "apply_effect GetCurrentUser w = w"
| "apply_effect ApiLogout w = w"
| "apply_effect (AxiosPost url b c) w = w"
| "apply_effect (Toast t) w = w"
| "apply_effect (ConsoleError l x) w = w"
| "apply_effect PreventDefault w = w"
| "apply_effect OnClose w = w"

definition exec :: "effect list \<Rightarrow> world \<Rightarrow> world" where
  "exec es w = fold apply_effect es w"

fun is_network :: "effect \<Rightarrow> bool" where
  "is_network (AxiosPost url b c) = True"
| "is_network GetCurrentUser = True"
| "is_network ApiLogout = True"
| "is_network e = False"

fun is_storage_write :: "effect \<Rightarrow> bool" where
  "is_storage_write (LocalStorageSetItem k v) = True"
| "is_storage_write e = False"

fun is_toast :: "effect \<Rightarrow> bool" where
  "is_toast (Toast t) = True"
| "is_toast e = False"

fun is_set_user :: "effect \<Rightarrow> bool" where
  "is_set_user (SetUser u) = True"
| "is_set_user e = False"

text \<open>
  \<open>try { body } catch (error) { handler } finally { fin }\<close> inside an async function:
  the body either completes or throws after some effects; the handler runs on a throw and
  may itself throw; the finally block runs in both cases.
\<close>

definition try_catch_finally ::
  "effect list \<times> 'a promise \<Rightarrow> (js_error \<Rightarrow> effect list \<times> 'a promise) \<Rightarrow> effect list
     \<Rightarrow> effect list \<times> 'a promise" where
  "try_catch_finally body handler fin =
     (case body of
        (es, Resolved v) \<Rightarrow> (es @ fin, Resolved v)
      | (es, Rejected error) \<Rightarrow>
          (case handler error of (hs, out) \<Rightarrow> (es @ hs @ fin, out)))"

section \<open>The session state holder (\<open>AuthProvider\<close>)\<close>

text \<open>The value handed to the context consumers on a render.\<close>

record AuthContextType =
  ctx_user :: "User jsopt"
  isAuthenticated :: bool
  ctx_isLoading :: bool

definition context_value :: "world \<Rightarrow> AuthContextType" where
  "context_value w =
     \<lparr>ctx_user = user w, isAuthenticated = truthy_user (user w), ctx_isLoading = isLoading w\<rparr>"

text \<open>
  \<open>checkAuth\<close>, started once by the mount effect.  The argument is the outcome of
  \<open>mockApiService.getCurrentUser()\<close>.
\<close>

definition checkAuth :: "User jsopt promise \<Rightarrow> effect list \<times> unit promise" where
  "checkAuth r =
     try_catch_finally
       (case r of
          Resolved currentUser \<Rightarrow> ([GetCurrentUser, SetUser currentUser], Resolved ())
        | Rejected error \<Rightarrow> ([GetCurrentUser], Rejected error))
       (\<lambda>error. ([ConsoleError ''Auth check failed:'' (LoggedError error)], Resolved ()))
       [SetIsLoading False]"

definition login_url :: string where
  "login_url = ''http://localhost:5000/api/auth/login''"

definition register_url :: string where
  "register_url = ''http://localhost:5000/api/auth/register''"

text \<open>
  \<open>login\<close>.  The last argument is the outcome of the \<open>axios.post\<close> call.  Reading
  \<open>res.data.user.username\<close> throws when \<open>res.data.user\<close> is \<open>undefined\<close> or \<open>null\<close>; the
  argument of \<open>toast\<close> is evaluated before \<open>toast\<close> is called.
\<close>

definition login ::
  "platform \<Rightarrow> LoginCredentials \<Rightarrow> response_data promise \<Rightarrow> effect list \<times> unit promise" where
  "login P credentials r =
     try_catch_finally
       (let request = [SetIsLoading True, AxiosPost login_url (LoginBody credentials) True] in
        case r of
          Rejected error \<Rightarrow> (request, Rejected error)
        | Resolved d \<Rightarrow>
            if \<not> truthy_string (data_token d) then
              (request @ [ConsoleError ''No token received:'' (LoggedData d)],
               Rejected (new_Error (js ''Login failed. No token.'')))
            else
              (case data_user d of
                 Defined u \<Rightarrow>
                   (request @
                    [LocalStorageSetItem ''token'' (String (data_token d)),
                     SetUser (data_user d),
                     Toast \<lparr>title = js ''Welcome back!'',
                            description = js ''Logged in as '' @ username u,
                            variant = Default\<rparr>],
                    Resolved ())
               | nullish \<Rightarrow>
                   (request @
                    [LocalStorageSetItem ''token'' (String (data_token d)),
                     SetUser (data_user d)],
                    Rejected (cannot_read_username P nullish))))
       (\<lambda>error.
          ([Toast \<lparr>title = js ''Login failed'',
                   description = or_else (message error) (js ''An error occurred during login''),
                   variant = Destructive\<rparr>],
           Rejected error))
       [SetIsLoading False]"

text \<open>\<open>register\<close>.  The last argument is the outcome of the \<open>axios.post\<close> call.\<close>

definition register ::
  "platform \<Rightarrow> RegisterCredentials \<Rightarrow> response_data promise \<Rightarrow> effect list \<times> unit promise" where
  "register P credentials r =
     try_catch_finally
       (let request =
              [SetIsLoading True, AxiosPost register_url (RegisterBody credentials) False] in
        case r of
          Rejected error \<Rightarrow> (request, Rejected error)
        | Resolved d \<Rightarrow>
            (case data_user d of
               Defined u \<Rightarrow>
                 (request @
                  [SetUser (data_user d),
                   Toast \<lparr>title = js ''Registration successful!'',
                          description = js ''Welcome, '' @ username u @ js ''!'',
                          variant = Default\<rparr>],
                  Resolved ())
             | nullish \<Rightarrow>
                 (request @ [SetUser (data_user d)],
                  Rejected (cannot_read_username P nullish))))
       (\<lambda>error.
          ([Toast \<lparr>title = js ''Registration failed'',
                   description =
                     or_else (message error) (js ''An error occurred during registration''),
                   variant = Destructive\<rparr>],
           Rejected error))
       [SetIsLoading False]"

text \<open>\<open>logout\<close>.  The argument is the outcome of \<open>mockApiService.logout()\<close>.\<close>

definition logout :: "unit promise \<Rightarrow> effect list \<times> unit promise" where
  "logout r =
     try_catch_finally
       (case r of
          Resolved x \<Rightarrow>
            ([ApiLogout, SetUser Null,
              Toast \<lparr>title = js ''Logged out'',
                     description = js ''You have been successfully logged out'',
                     variant = Default\<rparr>],
             Resolved ())
        | Rejected error \<Rightarrow> ([ApiLogout], Rejected error))
       (\<lambda>error.
          ([Toast \<lparr>title = js ''Logout failed'',
                   description = or_else (message error) (js ''An error occurred during logout''),
                   variant = Destructive\<rparr>],
           Resolved ()))
       []"

definition updateUser :: "platform \<Rightarrow> User \<Rightarrow> effect list" where
  "updateUser P updatedUser =
     [SetUser (Defined updatedUser),
      LocalStorageSetItem ''user'' (JSON_stringify P updatedUser)]"

section \<open>The regular expression of the register form\<close>

text \<open>
  \<open>\S\<close> is the complement of \<open>\s\<close>, which holds the ECMAScript white space and line
  terminator code units.
\<close>

definition isWhiteSpace :: "16 word \<Rightarrow> bool" where
  "isWhiteSpace c \<longleftrightarrow>
     c = 0x9 \<or> c = 0xA \<or> c = 0xB \<or> c = 0xC \<or> c = 0xD \<or> c = 0x20 \<or> c = 0xA0 \<or>
     c = 0x1680 \<or> (0x2000 \<le> c \<and> c \<le> 0x200A) \<or> c = 0x2028 \<or> c = 0x2029 \<or>
     c = 0x202F \<or> c = 0x205F \<or> c = 0x3000 \<or> c = 0xFEFF"

text \<open>
  The pattern language the source needs: a sequence of atoms, each taken once or
  quantified with \<open>+\<close>.
\<close>

datatype atom = NonSpace | Literal "16 word"

datatype quantifier = Once | OneOrMore

type_synonym regex = "(atom \<times> quantifier) list"

fun atom_matches :: "atom \<Rightarrow> 16 word \<Rightarrow> bool" where
  "atom_matches NonSpace c = (\<not> isWhiteSpace c)"
| "atom_matches (Literal l) c = (c = l)"

text \<open>
  Backtracking match of a pattern at the start of the input: a \<open>+\<close> item takes one
  code unit and then either continues with itself or hands over to the rest of the
  pattern.
\<close>

fun match_here :: "regex \<Rightarrow> jsstring \<Rightarrow> bool" where
  "match_here [] s = True"
| "match_here ((a, q) # r) [] = False"
| "match_here ((a, Once) # r) (c # cs) = (atom_matches a c \<and> match_here r cs)"
| "match_here ((a, OneOrMore) # r) (c # cs) =
     (atom_matches a c \<and> (match_here ((a, OneOrMore) # r) cs \<or> match_here r cs))"

text \<open>\<open>RegExp.prototype.test\<close> without flags: a match may start at any index.\<close>

fun regex_test :: "regex \<Rightarrow> jsstring \<Rightarrow> bool" where
  "regex_test r [] = match_here r []"
| "regex_test r (c # cs) = (match_here r (c # cs) \<or> regex_test r cs)"

text \<open>\<open>/\S+@\S+\.\S+/\<close>\<close>

definition email_regex :: regex where
  "email_regex =
     [(NonSpace, OneOrMore), (Literal 0x40, Once), (NonSpace, OneOrMore),
      (Literal 0x2E, Once), (NonSpace, OneOrMore)]"

section \<open>The credential form component (\<open>AuthForms\<close>)\<close>

definition validateLoginForm :: "loginForm \<Rightarrow> errors" where
  "validateLoginForm f =
     (let errors = [];
          errors = (if login_email f = [] then AList.update ''email'' (js ''Email is required'') errors
                    else errors);
          errors = (if login_password f = []
                    then AList.update ''password'' (js ''Password is required'') errors
                    else errors)
      in errors)"

definition validateRegisterForm :: "registerForm \<Rightarrow> errors" where
  "validateRegisterForm f =
     (let errors = [];
          errors = (if reg_username f = []
                    then AList.update ''username'' (js ''Username is required'') errors
                    else errors);
          errors = (if reg_email f = []
                    then AList.update ''email'' (js ''Email is required'') errors
                    else if \<not> regex_test email_regex (reg_email f)
                    then AList.update ''email'' (js ''Invalid email'') errors
                    else errors);
          errors = (if reg_password f = []
                    then AList.update ''password'' (js ''Password is required'') errors
                    else if length (reg_password f) < 6
                    then AList.update ''password''
                           (js ''Password must be at least 6 characters'') errors
                    else errors);
          errors = (if reg_password f \<noteq> reg_confirmPassword f
                    then AList.update ''confirmPassword'' (js ''Passwords do not match'') errors
                    else errors)
      in errors)"

text \<open>\<open>Object.keys(errors)\<close>\<close>

definition Object_keys :: "errors \<Rightarrow> string list" where
  "Object_keys errors = map fst errors"

text \<open>
  \<open>handleLoginSubmit\<close>, run in state \<open>w\<close>; the last argument is the outcome the network
  call has if it is made.
\<close>

definition handleLoginSubmit :: "platform \<Rightarrow> world \<Rightarrow> response_data promise \<Rightarrow> effect list" where
  "handleLoginSubmit P w r =
     (let errors = validateLoginForm (loginForm w) in
      [PreventDefault, SetFormErrors errors, SetServerError None] @
      (if length (Object_keys errors) = 0 then
         (case login P \<lparr>cred_email = login_email (loginForm w),
                        cred_password = login_password (loginForm w)\<rparr> r of
            (es, Resolved x) \<Rightarrow> es @ [OnClose]
          | (es, Rejected error) \<Rightarrow>
              es @ [ConsoleError ''Login error:'' (LoggedError error),
                    SetServerError
                      (Some (or_else (response_data_error error)
                               (js ''Login failed. Please try again.'')))])
       else []))"

definition handleRegisterSubmit ::
  "platform \<Rightarrow> world \<Rightarrow> response_data promise \<Rightarrow> effect list" where
  "handleRegisterSubmit P w r =
     (let errors = validateRegisterForm (registerForm w) in
      [PreventDefault, SetFormErrors errors, SetServerError None] @
      (if length (Object_keys errors) = 0 then
         (case register P \<lparr>rcred_username = reg_username (registerForm w),
                           rcred_email = reg_email (registerForm w),
                           rcred_password = reg_password (registerForm w)\<rparr> r of
            (es, Resolved x) \<Rightarrow> es @ [OnClose]
          | (es, Rejected error) \<Rightarrow>
              es @ [SetServerError
                      (Some (or_else (response_data_message error)
                               (js ''Registration failed. Try a different email.'')))])
       else []))"

text \<open>
  The other event handlers of the dialog: the tab triggers and switch links call
  \<open>setActiveTab\<close>, each input replaces one field of its form.
\<close>

datatype login_field = LoginEmail | LoginPassword

datatype register_field = RegUsername | RegEmail | RegPassword | RegConfirmPassword

fun onChangeLogin :: "login_field \<Rightarrow> world \<Rightarrow> jsstring \<Rightarrow> effect list" where
  "onChangeLogin LoginEmail w val = [SetLoginForm ((loginForm w)\<lparr>login_email := val\<rparr>)]"
| "onChangeLogin LoginPassword w val = [SetLoginForm ((loginForm w)\<lparr>login_password := val\<rparr>)]"

fun onChangeRegister :: "register_field \<Rightarrow> world \<Rightarrow> jsstring \<Rightarrow> effect list" where
  "onChangeRegister RegUsername w val =
     [SetRegisterForm ((registerForm w)\<lparr>reg_username := val\<rparr>)]"
| "onChangeRegister RegEmail w val = [SetRegisterForm ((registerForm w)\<lparr>reg_email := val\<rparr>)]"
| "onChangeRegister RegPassword w val =
     [SetRegisterForm ((registerForm w)\<lparr>reg_password := val\<rparr>)]"
| "onChangeRegister RegConfirmPassword w val =
     [SetRegisterForm ((registerForm w)\<lparr>reg_confirmPassword := val\<rparr>)]"

definition onValueChange :: "tab \<Rightarrow> effect list" where
  "onValueChange t = [SetActiveTab t]"

text \<open>
  What each tab renders from the state: its inputs' values, the error under each input
  (\<open>formErrors.email\<close> and so on) and the server error above the button.
\<close>

record login_view =
  lv_email :: jsstring
  lv_password :: jsstring
  lv_email_error :: "jsstring option"
  lv_password_error :: "jsstring option"
  lv_serverError :: "jsstring option"

record register_view =
  rv_username :: jsstring
  rv_email :: jsstring
  rv_password :: jsstring
  rv_confirmPassword :: jsstring
  rv_username_error :: "jsstring option"
  rv_email_error :: "jsstring option"
  rv_password_error :: "jsstring option"
  rv_confirmPassword_error :: "jsstring option"
  rv_serverError :: "jsstring option"

definition login_tab_content :: "world \<Rightarrow> login_view" where
  "login_tab_content w =
     \<lparr>lv_email = login_email (loginForm w),
      lv_password = login_password (loginForm w),
      lv_email_error = map_of (formErrors w) ''email'',
      lv_password_error = map_of (formErrors w) ''password'',
      lv_serverError = serverError w\<rparr>"

definition register_tab_content :: "world \<Rightarrow> register_view" where
  "register_tab_content w =
     \<lparr>rv_username = reg_username (registerForm w),
      rv_email = reg_email (registerForm w),
      rv_password = reg_password (registerForm w),
      rv_confirmPassword = reg_confirmPassword (registerForm w),
      rv_username_error = map_of (formErrors w) ''username'',
      rv_email_error = map_of (formErrors w) ''email'',
      rv_password_error = map_of (formErrors w) ''password'',
      rv_confirmPassword_error = map_of (formErrors w) ''confirmPassword'',
      rv_serverError = serverError w\<rparr>"

section \<open>The validation rules as the specification words them\<close>

text \<open>
  The shape \<open>text@text.text\<close>: somewhere in the string stands a non-empty run of
  non-blank text, an \<open>@\<close>, another such run, a dot and a third run.
\<close>

definition text_at_text_dot_text :: "jsstring \<Rightarrow> bool" where
  "text_at_text_dot_text s \<longleftrightarrow>
     (\<exists>pre t1 t2 t3 post.
        s = pre @ t1 @ [0x40] @ t2 @ [0x2E] @ t3 @ post \<and>
        t1 \<noteq> [] \<and> t2 \<noteq> [] \<and> t3 \<noteq> [] \<and>
        (\<forall>c \<in> set (t1 @ t2 @ t3). \<not> isWhiteSpace c))"

text \<open>Login: email required; password required.\<close>

definition login_violated_keys :: "loginForm \<Rightarrow> string set" where
  "login_violated_keys f =
     {k. k = ''email'' \<and> login_email f = []} \<union>
     {k. k = ''password'' \<and> login_password f = []}"

text \<open>
  Register: username required; email required and of the shape above; password required
  and of at least 6 characters; confirmation equal to the password.
\<close>

definition register_violated_keys :: "registerForm \<Rightarrow> string set" where
  "register_violated_keys f =
     {k. k = ''username'' \<and> reg_username f = []} \<union>
     {k. k = ''email'' \<and> (reg_email f = [] \<or> \<not> text_at_text_dot_text (reg_email f))} \<union>
     {k. k = ''password'' \<and> (reg_password f = [] \<or> length (reg_password f) < 6)} \<union>
     {k. k = ''confirmPassword'' \<and> reg_confirmPassword f \<noteq> reg_password f}"

section \<open>Sample values\<close>

text \<open>Concrete inputs on which the results below are instantiated.\<close>

definition sample_platform :: platform where
  "sample_platform =
     \<lparr>cannot_read_username = (\<lambda>v. new_Error (js ''Cannot read properties of undefined'')),
      JSON_stringify = (\<lambda>u. js ''{username:'' @ username u @ js ''}'')\<rparr>"

definition ash :: User where
  "ash = \<lparr>user_id = 1, username = js ''ash'', user_email = js ''ash@pallet.town''\<rparr>"

definition sample_credentials :: LoginCredentials where
  "sample_credentials = \<lparr>cred_email = js ''ash@pallet.town'', cred_password = js ''pikachu''\<rparr>"

definition sample_world :: world where
  "sample_world = initial_world Map.empty LoginTab"

text \<open>A dialog in which both forms lack the password.\<close>

definition half_filled_world :: world where
  "half_filled_world =
     sample_world
       \<lparr>loginForm := \<lparr>login_email = js ''ash@pallet.town'', login_password = []\<rparr>,
        registerForm := \<lparr>reg_username = js ''ash'', reg_email = js ''a@b.com'',
                         reg_password = [], reg_confirmPassword = []\<rparr>\<rparr>"

definition mismatched_form :: registerForm where
  "mismatched_form =
     \<lparr>reg_username = js ''ash'', reg_email = js ''a@b.com'',
      reg_password = js ''abcdef'', reg_confirmPassword = js ''abcdeg''\<rparr>"

section \<open>Basic facts\<close>

lemma js_nonempty [simp]: "js (c # cs) \<noteq> []"
  by (simp add: js_def)

lemma exec_Nil [simp]: "exec [] w = w"
  by (simp add: exec_def)

lemma exec_Cons [simp]: "exec (e # es) w = exec es (apply_effect e w)"
  by (simp add: exec_def)

lemma exec_append [simp]: "exec (es @ fs) w = exec fs (exec es w)"
  by (simp add: exec_def)

subsection \<open>The paths through \<open>login\<close> and \<open>register\<close>\<close>

lemma login_Rejected:
  "login P credentials (Rejected error) =
     ([SetIsLoading True, AxiosPost login_url (LoginBody credentials) True,
       Toast \<lparr>title = js ''Login failed'',
              description = or_else (message error) (js ''An error occurred during login''),
              variant = Destructive\<rparr>,
       SetIsLoading False],
      Rejected error)"
  by (simp add: login_def try_catch_finally_def Let_def)

lemma login_no_token:
  "\<not> truthy_string (data_token d) \<Longrightarrow>
   login P credentials (Resolved d) =
     ([SetIsLoading True, AxiosPost login_url (LoginBody credentials) True,
       ConsoleError ''No token received:'' (LoggedData d),
       Toast \<lparr>title = js ''Login failed'', description = js ''Login failed. No token.'',
              variant = Destructive\<rparr>,
       SetIsLoading False],
      Rejected (new_Error (js ''Login failed. No token.'')))"
  by (simp add: login_def try_catch_finally_def Let_def new_Error_def)

lemma login_no_user:
  "truthy_string (data_token d) \<Longrightarrow> data_user d = Undefined \<or> data_user d = Null \<Longrightarrow>
   login P credentials (Resolved d) =
     ([SetIsLoading True, AxiosPost login_url (LoginBody credentials) True,
       LocalStorageSetItem ''token'' (String (data_token d)),
       SetUser (data_user d),
       Toast \<lparr>title = js ''Login failed'',
              description = or_else (message (cannot_read_username P (data_user d)))
                              (js ''An error occurred during login''),
              variant = Destructive\<rparr>,
       SetIsLoading False],
      Rejected (cannot_read_username P (data_user d)))"
  by (auto simp add: login_def try_catch_finally_def Let_def)

lemma login_ok:
  "truthy_string (data_token d) \<Longrightarrow> data_user d = Defined u \<Longrightarrow>
   login P credentials (Resolved d) =
     ([SetIsLoading True, AxiosPost login_url (LoginBody credentials) True,
       LocalStorageSetItem ''token'' (String (data_token d)),
       SetUser (Defined u),
       Toast \<lparr>title = js ''Welcome back!'', description = js ''Logged in as '' @ username u,
              variant = Default\<rparr>,
       SetIsLoading False],
      Resolved ())"
  by (simp add: login_def try_catch_finally_def Let_def)

lemma register_Rejected:
  "register P credentials (Rejected error) =
     ([SetIsLoading True, AxiosPost register_url (RegisterBody credentials) False,
       Toast \<lparr>title = js ''Registration failed'',
              description =
                or_else (message error) (js ''An error occurred during registration''),
              variant = Destructive\<rparr>,
       SetIsLoading False],
      Rejected error)"
  by (simp add: register_def try_catch_finally_def Let_def)

lemma register_no_user:
  "data_user d = Undefined \<or> data_user d = Null \<Longrightarrow>
   register P credentials (Resolved d) =
     ([SetIsLoading True, AxiosPost register_url (RegisterBody credentials) False,
       SetUser (data_user d),
       Toast \<lparr>title = js ''Registration failed'',
              description =
                or_else (message (cannot_read_username P (data_user d)))
                  (js ''An error occurred during registration''),
              variant = Destructive\<rparr>,
       SetIsLoading False],
      Rejected (cannot_read_username P (data_user d)))"
  by (auto simp add: register_def try_catch_finally_def Let_def)

lemma register_ok:
  "data_user d = Defined u \<Longrightarrow>
   register P credentials (Resolved d) =
     ([SetIsLoading True, AxiosPost register_url (RegisterBody credentials) False,
       SetUser (Defined u),
       Toast \<lparr>title = js ''Registration successful!'',
              description = js ''Welcome, '' @ username u @ js ''!'',
              variant = Default\<rparr>,
       SetIsLoading False],
      Resolved ())"
  by (simp add: register_def try_catch_finally_def Let_def)

lemma login_cases:
  obtains (rejected) error where "r = Rejected error"
  | (no_token) d where "r = Resolved d" "\<not> truthy_string (data_token d)"
  | (no_user) d where "r = Resolved d" "truthy_string (data_token d)"
      "data_user d = Undefined \<or> data_user d = Null"
  | (ok) d u where "r = Resolved d" "truthy_string (data_token d)" "data_user d = Defined u"
proof (cases r)
  case (Resolved d)
  then show ?thesis
    using no_token no_user ok by (cases "data_user d") blast+
next
  case (Rejected error)
  then show ?thesis using rejected by blast
qed

lemma register_cases:
  obtains (rejected) error where "r = Rejected error"
  | (no_user) d where "r = Resolved d" "data_user d = Undefined \<or> data_user d = Null"
  | (ok) d u where "r = Resolved d" "data_user d = Defined u"
proof (cases r)
  case (Resolved d)
  then show ?thesis
    using no_user ok by (cases "data_user d") blast+
next
  case (Rejected error)
  then show ?thesis using rejected by blast
qed

subsection \<open>What the regular expression accepts\<close>

lemma match_here_OneOrMore:
  "match_here ((a, OneOrMore) # r) s \<longleftrightarrow>
     (\<exists>t rest. s = t @ rest \<and> t \<noteq> [] \<and> (\<forall>c \<in> set t. atom_matches a c) \<and> match_here r rest)"
proof (induction s)
  case Nil
  then show ?case by simp
next
  case (Cons c cs)
  show ?case
  proof
    assume "match_here ((a, OneOrMore) # r) (c # cs)"
    then have ac: "atom_matches a c"
      and alt: "match_here ((a, OneOrMore) # r) cs \<or> match_here r cs" by simp_all
    from alt show "\<exists>t rest. c # cs = t @ rest \<and> t \<noteq> [] \<and> (\<forall>c \<in> set t. atom_matches a c) \<and> match_here r rest"
    proof
      assume "match_here ((a, OneOrMore) # r) cs"
      with Cons.IH obtain t rest where
        "cs = t @ rest" "\<forall>c \<in> set t. atom_matches a c" "match_here r rest" by blast
      with ac have "c # cs = (c # t) @ rest \<and> c # t \<noteq> [] \<and>
         (\<forall>x \<in> set (c # t). atom_matches a x) \<and> match_here r rest" by simp
      then show ?thesis by blast
    next
      assume "match_here r cs"
      with ac have "c # cs = [c] @ cs \<and> [c] \<noteq> [] \<and>
         (\<forall>x \<in> set [c]. atom_matches a x) \<and> match_here r cs" by simp
      then show ?thesis by blast
    qed
  next
    assume "\<exists>t rest. c # cs = t @ rest \<and> t \<noteq> [] \<and> (\<forall>c \<in> set t. atom_matches a c) \<and> match_here r rest"
    then obtain t rest where tr: "c # cs = t @ rest" "t \<noteq> []"
      "\<forall>c \<in> set t. atom_matches a c" "match_here r rest" by blast
    then obtain t' where t: "t = c # t'" "cs = t' @ rest" by (cases t) auto
    show "match_here ((a, OneOrMore) # r) (c # cs)"
    proof (cases "t' = []")
      case True
      with t tr show ?thesis by simp
    next
      case False
      with t tr have "match_here ((a, OneOrMore) # r) cs"
        using Cons.IH by auto
      with t tr show ?thesis by simp
    qed
  qed
qed

lemma match_here_OneOrMoreI:
  "t \<noteq> [] \<Longrightarrow> \<forall>c \<in> set t. atom_matches a c \<Longrightarrow> match_here r rest
     \<Longrightarrow> match_here ((a, OneOrMore) # r) (t @ rest)"
  unfolding match_here_OneOrMore by blast

lemma match_here_Once:
  "match_here ((a, Once) # r) s \<longleftrightarrow>
     (\<exists>c rest. s = c # rest \<and> atom_matches a c \<and> match_here r rest)"
  by (cases s) simp_all

lemma regex_test_iff:
  "regex_test r s \<longleftrightarrow> (\<exists>pre suf. s = pre @ suf \<and> match_here r suf)"
proof (induction s)
  case Nil
  then show ?case by simp
next
  case (Cons c cs)
  show ?case
  proof
    assume "regex_test r (c # cs)"
    then consider "match_here r (c # cs)" | "regex_test r cs" by auto
    then show "\<exists>pre suf. c # cs = pre @ suf \<and> match_here r suf"
    proof cases
      case 1
      then have "c # cs = [] @ (c # cs) \<and> match_here r (c # cs)" by simp
      then show ?thesis by blast
    next
      case 2
      with Cons.IH obtain pre suf where "cs = pre @ suf" "match_here r suf" by blast
      then have "c # cs = (c # pre) @ suf \<and> match_here r suf" by simp
      then show ?thesis by blast
    qed
  next
    assume "\<exists>pre suf. c # cs = pre @ suf \<and> match_here r suf"
    then obtain pre suf where ps: "c # cs = pre @ suf" "match_here r suf" by blast
    show "regex_test r (c # cs)"
    proof (cases "pre = []")
      case True
      with ps have "match_here r (c # cs)" by simp
      then show ?thesis by simp
    next
      case False
      then obtain pre' where "pre = c # pre'" "cs = pre' @ suf"
        using ps by (cases pre) auto
      with ps Cons.IH have "regex_test r cs" by blast
      then show ?thesis by simp
    qed
  qed
qed

lemma email_regex_shape: "regex_test email_regex s \<longleftrightarrow> text_at_text_dot_text s"
proof
  assume "regex_test email_regex s"
  then obtain pre suf where s: "s = pre @ suf" and m: "match_here email_regex suf"
    unfolding regex_test_iff by blast
  from m obtain t1 r1 where 1: "suf = t1 @ r1" "t1 \<noteq> []" "\<forall>c \<in> set t1. \<not> isWhiteSpace c"
    and m1: "match_here [(Literal 0x40, Once), (NonSpace, OneOrMore), (Literal 0x2E, Once), (NonSpace, OneOrMore)] r1"
    unfolding email_regex_def match_here_OneOrMore by auto
  from m1 obtain r2 where 2: "r1 = 0x40 # r2"
    and m2: "match_here [(NonSpace, OneOrMore), (Literal 0x2E, Once), (NonSpace, OneOrMore)] r2"
    unfolding match_here_Once by auto
  from m2 obtain t2 r3 where 3: "r2 = t2 @ r3" "t2 \<noteq> []" "\<forall>c \<in> set t2. \<not> isWhiteSpace c"
    and m3: "match_here [(Literal 0x2E, Once), (NonSpace, OneOrMore)] r3"
    unfolding match_here_OneOrMore by auto
  from m3 obtain r4 where 4: "r3 = 0x2E # r4"
    and m4: "match_here [(NonSpace, OneOrMore)] r4"
    unfolding match_here_Once by auto
  from m4 obtain t3 post where 5: "r4 = t3 @ post" "t3 \<noteq> []" "\<forall>c \<in> set t3. \<not> isWhiteSpace c"
    unfolding match_here_OneOrMore by auto
  have "s = pre @ t1 @ [0x40] @ t2 @ [0x2E] @ t3 @ post"
    using s 1 2 3 4 5 by simp
  moreover have "\<forall>c \<in> set (t1 @ t2 @ t3). \<not> isWhiteSpace c"
    using 1 3 5 by auto
  ultimately show "text_at_text_dot_text s"
    unfolding text_at_text_dot_text_def using 1 3 5 by blast
next
  assume "text_at_text_dot_text s"
  then obtain pre t1 t2 t3 post where
    s: "s = pre @ t1 @ [0x40] @ t2 @ [0x2E] @ t3 @ post"
    and ne: "t1 \<noteq> []" "t2 \<noteq> []" "t3 \<noteq> []"
    and ns: "\<forall>c \<in> set (t1 @ t2 @ t3). \<not> isWhiteSpace c"
    unfolding text_at_text_dot_text_def by blast
  from ns have ns1: "\<forall>c \<in> set t1. atom_matches NonSpace c"
    and ns2: "\<forall>c \<in> set t2. atom_matches NonSpace c"
    and ns3: "\<forall>c \<in> set t3. atom_matches NonSpace c" by auto
  have m5: "match_here [(NonSpace, OneOrMore)] (t3 @ post)"
    by (rule match_here_OneOrMoreI [OF ne(3) ns3]) simp
  then have m4: "match_here [(Literal 0x2E, Once), (NonSpace, OneOrMore)] (0x2E # t3 @ post)"
    by simp
  have m3:
    "match_here [(NonSpace, OneOrMore), (Literal 0x2E, Once), (NonSpace, OneOrMore)]
       (t2 @ 0x2E # t3 @ post)"
    by (rule match_here_OneOrMoreI [OF ne(2) ns2 m4])
  then have m2:
    "match_here [(Literal 0x40, Once), (NonSpace, OneOrMore), (Literal 0x2E, Once),
       (NonSpace, OneOrMore)] (0x40 # t2 @ 0x2E # t3 @ post)"
    by simp
  have m1: "match_here email_regex (t1 @ 0x40 # t2 @ 0x2E # t3 @ post)"
    unfolding email_regex_def by (rule match_here_OneOrMoreI [OF ne(1) ns1 m2])
  show "regex_test email_regex s"
    unfolding regex_test_iff using s m1 by auto
qed

subsection \<open>Keys of the error maps\<close>

lemma update_not_Nil [simp]: "AList.update k v al \<noteq> []"
  by (cases al) simp_all

lemma in_Object_keys_update:
  "k \<in> set (Object_keys (AList.update k' v al)) \<longleftrightarrow> k = k' \<or> k \<in> set (Object_keys al)"
  using dom_update [of k' v al] by (auto simp add: Object_keys_def)

lemma in_Object_keys_if:
  "k \<in> set (Object_keys (if c then AList.update k' v al else al))
     \<longleftrightarrow> (c \<and> k = k') \<or> k \<in> set (Object_keys al)"
  by (simp add: in_Object_keys_update)

lemma in_Object_keys_if_if:
  "k \<in> set (Object_keys (if c then AList.update k' v al
                           else if c' then AList.update k' v' al else al))
     \<longleftrightarrow> ((c \<or> c') \<and> k = k') \<or> k \<in> set (Object_keys al)"
  by (auto simp add: in_Object_keys_update)

lemma in_validateLoginForm_keys:
  "k \<in> set (Object_keys (validateLoginForm f)) \<longleftrightarrow>
     (k = ''email'' \<and> login_email f = []) \<or> (k = ''password'' \<and> login_password f = [])"
  unfolding validateLoginForm_def Let_def in_Object_keys_if
  by (auto simp add: Object_keys_def)

lemma in_validateRegisterForm_keys:
  "k \<in> set (Object_keys (validateRegisterForm f)) \<longleftrightarrow>
     (k = ''username'' \<and> reg_username f = [])
     \<or> (k = ''email'' \<and> (reg_email f = [] \<or> \<not> regex_test email_regex (reg_email f)))
     \<or> (k = ''password'' \<and> (reg_password f = [] \<or> length (reg_password f) < 6))
     \<or> (k = ''confirmPassword'' \<and> reg_password f \<noteq> reg_confirmPassword f)"
  unfolding validateRegisterForm_def Let_def in_Object_keys_if in_Object_keys_if_if
  by (auto simp add: Object_keys_def)

lemma in_register_violated_keys:
  "k \<in> register_violated_keys f \<longleftrightarrow>
     (k = ''username'' \<and> reg_username f = [])
     \<or> (k = ''email'' \<and> (reg_email f = [] \<or> \<not> text_at_text_dot_text (reg_email f)))
     \<or> (k = ''password'' \<and> (reg_password f = [] \<or> length (reg_password f) < 6))
     \<or> (k = ''confirmPassword'' \<and> reg_confirmPassword f \<noteq> reg_password f)"
  unfolding register_violated_keys_def Un_iff mem_Collect_eq
  by (simp only: disj_assoc)

lemma in_login_violated_keys:
  "k \<in> login_violated_keys f \<longleftrightarrow>
     (k = ''email'' \<and> login_email f = []) \<or> (k = ''password'' \<and> login_password f = [])"
  unfolding login_violated_keys_def Un_iff mem_Collect_eq ..

lemma validateLoginForm_keys:
  "set (Object_keys (validateLoginForm f)) = login_violated_keys f"
proof (rule set_eqI)
  fix k
  show "k \<in> set (Object_keys (validateLoginForm f)) \<longleftrightarrow> k \<in> login_violated_keys f"
    unfolding in_validateLoginForm_keys in_login_violated_keys ..
qed

lemma validateRegisterForm_keys:
  "set (Object_keys (validateRegisterForm f)) = register_violated_keys f"
proof (rule set_eqI)
  fix k
  have "(reg_confirmPassword f \<noteq> reg_password f) = (reg_password f \<noteq> reg_confirmPassword f)"
    by (rule arg_cong [where f = Not]) (rule eq_commute)
  then show "k \<in> set (Object_keys (validateRegisterForm f)) \<longleftrightarrow> k \<in> register_violated_keys f"
    unfolding in_validateRegisterForm_keys in_register_violated_keys email_regex_shape
    by (simp only:)
qed

subsection \<open>Blocked submits and the form state\<close>

lemma validateLoginForm_Nil:
  "validateLoginForm f = [] \<longleftrightarrow> login_email f \<noteq> [] \<and> login_password f \<noteq> []"
  by (simp add: validateLoginForm_def Let_def)

lemma validateRegisterForm_Nil:
  "validateRegisterForm f = [] \<longleftrightarrow>
     reg_username f \<noteq> [] \<and> reg_email f \<noteq> [] \<and> regex_test email_regex (reg_email f) \<and>
     6 \<le> length (reg_password f) \<and> reg_password f = reg_confirmPassword f"
  by (auto simp add: validateRegisterForm_def Let_def)

lemma handleLoginSubmit_blocked:
  "validateLoginForm (loginForm w) \<noteq> [] \<Longrightarrow>
   handleLoginSubmit P w r =
     [PreventDefault, SetFormErrors (validateLoginForm (loginForm w)), SetServerError None]"
  by (simp add: handleLoginSubmit_def Let_def Object_keys_def)

lemma handleRegisterSubmit_blocked:
  "validateRegisterForm (registerForm w) \<noteq> [] \<Longrightarrow>
   handleRegisterSubmit P w r =
     [PreventDefault, SetFormErrors (validateRegisterForm (registerForm w)),
      SetServerError None]"
  by (simp add: handleRegisterSubmit_def Let_def Object_keys_def)

lemma login_form_state:
  "loginForm (exec (fst (login P c r)) w) = loginForm w
   \<and> registerForm (exec (fst (login P c r)) w) = registerForm w
   \<and> formErrors (exec (fst (login P c r)) w) = formErrors w
   \<and> serverError (exec (fst (login P c r)) w) = serverError w
   \<and> activeTab (exec (fst (login P c r)) w) = activeTab w"
  by (cases r rule: login_cases)
    (simp_all add: login_Rejected login_no_token login_no_user login_ok)

lemma register_form_state:
  "loginForm (exec (fst (register P c r)) w) = loginForm w
   \<and> registerForm (exec (fst (register P c r)) w) = registerForm w
   \<and> formErrors (exec (fst (register P c r)) w) = formErrors w
   \<and> serverError (exec (fst (register P c r)) w) = serverError w
   \<and> activeTab (exec (fst (register P c r)) w) = activeTab w"
  by (cases r rule: register_cases)
    (simp_all add: register_Rejected register_no_user register_ok)

lemma handleLoginSubmit_form_state:
  "loginForm (exec (handleLoginSubmit P w r) w) = loginForm w
   \<and> registerForm (exec (handleLoginSubmit P w r) w) = registerForm w
   \<and> formErrors (exec (handleLoginSubmit P w r) w) = validateLoginForm (loginForm w)
   \<and> activeTab (exec (handleLoginSubmit P w r) w) = activeTab w"
proof (cases "validateLoginForm (loginForm w) = []")
  case False
  then show ?thesis by (simp add: handleLoginSubmit_blocked)
next
  case True
  obtain es out where l: "login P \<lparr>cred_email = login_email (loginForm w),
      cred_password = login_password (loginForm w)\<rparr> r = (es, out)"
    by (cases "login P \<lparr>cred_email = login_email (loginForm w),
      cred_password = login_password (loginForm w)\<rparr> r") 
  from login_form_state [of P "\<lparr>cred_email = login_email (loginForm w),
      cred_password = login_password (loginForm w)\<rparr>" r] l
  have fs: "loginForm (exec es w') = loginForm w'" "registerForm (exec es w') = registerForm w'"
    "formErrors (exec es w') = formErrors w'" "activeTab (exec es w') = activeTab w'" for w'
    by simp_all
  show ?thesis
    using True l by (cases out) (simp_all add: handleLoginSubmit_def Let_def fs)
qed

lemma handleRegisterSubmit_form_state:
  "loginForm (exec (handleRegisterSubmit P w r) w) = loginForm w
   \<and> registerForm (exec (handleRegisterSubmit P w r) w) = registerForm w
   \<and> formErrors (exec (handleRegisterSubmit P w r) w) = validateRegisterForm (registerForm w)
   \<and> activeTab (exec (handleRegisterSubmit P w r) w) = activeTab w"
proof (cases "validateRegisterForm (registerForm w) = []")
  case False
  then show ?thesis by (simp add: handleRegisterSubmit_blocked)
next
  case True
  obtain es out where l: "register P \<lparr>rcred_username = reg_username (registerForm w),
      rcred_email = reg_email (registerForm w),
      rcred_password = reg_password (registerForm w)\<rparr> r = (es, out)"
    by (cases "register P \<lparr>rcred_username = reg_username (registerForm w),
      rcred_email = reg_email (registerForm w),
      rcred_password = reg_password (registerForm w)\<rparr> r") 
  from register_form_state [of P "\<lparr>rcred_username = reg_username (registerForm w),
      rcred_email = reg_email (registerForm w),
      rcred_password = reg_password (registerForm w)\<rparr>" r] l
  have fs: "loginForm (exec es w') = loginForm w'" "registerForm (exec es w') = registerForm w'"
    "formErrors (exec es w') = formErrors w'" "activeTab (exec es w') = activeTab w'" for w'
    by simp_all
  show ?thesis
    using True l by (cases out) (simp_all add: handleRegisterSubmit_def Let_def fs)
qed

section \<open>The session state holder: verified properties\<close>

text \<open>
  C1.  A login whose response carries no \<open>token\<close> property fails although the transport
  succeeded: the returned promise rejects (with \<open>Error("Login failed. No token.")\<close>),
  the trace contains no storage write, so the storage is what it was, and the only
  notification is the destructive "Login failed" toast.
\<close>

theorem login_without_token_fails:
  assumes "data_token d = Undefined"
  shows "snd (login P credentials (Resolved d))
           = Rejected (new_Error (js ''Login failed. No token.''))
    \<and> filter is_storage_write (fst (login P credentials (Resolved d))) = []
    \<and> localStorage (exec (fst (login P credentials (Resolved d))) w) = localStorage w
    \<and> filter is_toast (fst (login P credentials (Resolved d))) =
        [Toast \<lparr>title = js ''Login failed'', description = js ''Login failed. No token.'',
                variant = Destructive\<rparr>]"
  using assms by (simp add: login_no_token)

theorem login_without_token_fails_witness:
  "data_token \<lparr>data_token = Undefined, data_user = Defined ash\<rparr> = Undefined
   \<and> snd (login sample_platform sample_credentials
            (Resolved \<lparr>data_token = Undefined, data_user = Defined ash\<rparr>))
       = Rejected (new_Error (js ''Login failed. No token.''))
   \<and> filter is_storage_write
         (fst (login sample_platform sample_credentials
                 (Resolved \<lparr>data_token = Undefined, data_user = Defined ash\<rparr>))) = []
   \<and> localStorage
         (exec (fst (login sample_platform sample_credentials
                       (Resolved \<lparr>data_token = Undefined, data_user = Defined ash\<rparr>)))
            sample_world) ''token'' = None"
  using login_without_token_fails
    [of "\<lparr>data_token = Undefined, data_user = Defined ash\<rparr>" sample_platform
        sample_credentials sample_world]
  by (simp add: sample_world_def initial_world_def)

text \<open>
  C4.  The context value exposes \<open>isAuthenticated\<close> as \<open>!!user\<close>: it is true exactly when
  the user state holds a user object, that is, when it is neither \<open>null\<close> nor
  \<open>undefined\<close>.  This holds in every state, in particular in every state reached by
  running effects of any operation; no effect writes \<open>isAuthenticated\<close>.
\<close>

theorem isAuthenticated_tracks_user:
  "isAuthenticated (context_value w) = (user w \<noteq> Null \<and> user w \<noteq> Undefined)
   \<and> isAuthenticated (context_value (exec es w))
       = (ctx_user (context_value (exec es w)) \<noteq> Null
          \<and> ctx_user (context_value (exec es w)) \<noteq> Undefined)"
proof -
  have "truthy_user v = (v \<noteq> Null \<and> v \<noteq> Undefined)" for v
    by (cases v) simp_all
  then show ?thesis by (simp add: context_value_def)
qed

text \<open>
  C5.  Logout: when the end-session call succeeds the state changes in the user cell only,
  which becomes \<open>null\<close>, and the one notification is the "Logged out" toast; when it fails
  the state is left exactly as it was, no user setter runs, and the one notification is
  the destructive "Logout failed" toast.
\<close>

theorem logout_outcomes:
  "exec (fst (logout (Resolved ()))) w = w\<lparr>user := Null\<rparr>
   \<and> filter is_toast (fst (logout (Resolved ()))) =
        [Toast \<lparr>title = js ''Logged out'',
                description = js ''You have been successfully logged out'',
                variant = Default\<rparr>]
   \<and> exec (fst (logout (Rejected error))) w = w
   \<and> filter is_set_user (fst (logout (Rejected error))) = []
   \<and> filter is_toast (fst (logout (Rejected error))) =
        [Toast \<lparr>title = js ''Logout failed'',
                description = or_else (message error) (js ''An error occurred during logout''),
                variant = Destructive\<rparr>]"
  by (simp add: logout_def try_catch_finally_def)

text \<open>
  C6.  Storage writes.  \<open>updateUser\<close> replaces the user state, stores the serialized user
  under \<open>user\<close> and makes no network call.  A login that succeeds got a response with a
  token and its only storage write puts that token under \<open>token\<close>; the entry \<open>user\<close> is
  untouched.  \<open>register\<close> writes nothing to the storage, whatever the outcome.
\<close>

theorem storage_writes:
  "exec (updateUser P updatedUser) w
     = w\<lparr>user := Defined updatedUser,
          localStorage := (localStorage w)(''user'' \<mapsto> JSON_stringify P updatedUser)\<rparr>
   \<and> filter is_network (updateUser P updatedUser) = []
   \<and> (snd (login P credentials r) = Resolved () \<longrightarrow>
        (\<exists>d t. r = Resolved d \<and> data_token d = Defined t
           \<and> filter is_storage_write (fst (login P credentials r))
               = [LocalStorageSetItem ''token'' t])
        \<and> localStorage (exec (fst (login P credentials r)) w) ''user'' = localStorage w ''user'')
   \<and> filter is_storage_write (fst (register P rcredentials r')) = []
   \<and> localStorage (exec (fst (register P rcredentials r')) w) = localStorage w"
proof -
  have upd: "exec (updateUser P updatedUser) w
     = w\<lparr>user := Defined updatedUser,
          localStorage := (localStorage w)(''user'' \<mapsto> JSON_stringify P updatedUser)\<rparr>"
    "filter is_network (updateUser P updatedUser) = []"
    by (simp_all add: updateUser_def)
  have log: "snd (login P credentials r) = Resolved () \<longrightarrow>
        (\<exists>d t. r = Resolved d \<and> data_token d = Defined t
           \<and> filter is_storage_write (fst (login P credentials r))
               = [LocalStorageSetItem ''token'' t])
        \<and> localStorage (exec (fst (login P credentials r)) w) ''user'' = localStorage w ''user''"
  proof (cases r rule: login_cases)
    case (ok d u)
    then obtain t where "data_token d = Defined t"
      by (cases "data_token d") simp_all
    with ok show ?thesis by (simp add: login_ok)
  qed (simp_all add: login_Rejected login_no_token login_no_user)
  have reg: "filter is_storage_write (fst (register P rcredentials r')) = []
      \<and> localStorage (exec (fst (register P rcredentials r')) w) = localStorage w"
    by (cases r' rule: register_cases)
      (simp_all add: register_Rejected register_no_user register_ok)
  from upd log reg show ?thesis by simp
qed

theorem storage_writes_witness:
  "snd (login sample_platform sample_credentials
          (Resolved \<lparr>data_token = Defined (js ''t1''), data_user = Defined ash\<rparr>)) = Resolved ()
   \<and> filter is_storage_write
        (fst (login sample_platform sample_credentials
                (Resolved \<lparr>data_token = Defined (js ''t1''), data_user = Defined ash\<rparr>)))
       = [LocalStorageSetItem ''token'' (js ''t1'')]
   \<and> localStorage
        (exec (fst (login sample_platform sample_credentials
                      (Resolved \<lparr>data_token = Defined (js ''t1''), data_user = Defined ash\<rparr>)))
           sample_world) ''user'' = None"
  using storage_writes
    [of sample_platform ash sample_world sample_credentials
        "Resolved \<lparr>data_token = Defined (js ''t1''), data_user = Defined ash\<rparr>"]
  by (simp add: login_ok sample_world_def initial_world_def)

text \<open>
  C8.  The bootstrap lookup, run on the state at creation.  On success the returned user
  is adopted and loading ends.  On failure the effects are the lookup, one console log
  and the end of loading: no notification, no error state, the promise resolves, and the
  user stays \<open>null\<close>.  Whatever the outcome and the starting state, loading is false
  afterwards.
\<close>

theorem checkAuth_outcomes:
  "fst (checkAuth (Resolved currentUser))
       = [GetCurrentUser, SetUser currentUser, SetIsLoading False]
   \<and> exec (fst (checkAuth (Resolved currentUser))) (initial_world storage defaultTab)
       = (initial_world storage defaultTab)\<lparr>user := currentUser, isLoading := False\<rparr>
   \<and> fst (checkAuth (Rejected error))
       = [GetCurrentUser, ConsoleError ''Auth check failed:'' (LoggedError error),
          SetIsLoading False]
   \<and> snd (checkAuth (Rejected error)) = Resolved ()
   \<and> filter is_toast (fst (checkAuth (Rejected error))) = []
   \<and> exec (fst (checkAuth (Rejected error))) (initial_world storage defaultTab)
       = (initial_world storage defaultTab)\<lparr>isLoading := False\<rparr>
   \<and> user (exec (fst (checkAuth (Rejected error))) (initial_world storage defaultTab)) = Null
   \<and> isLoading (exec (fst (checkAuth r)) w) = False"
  by (cases r) (simp_all add: checkAuth_def try_catch_finally_def initial_world_def)

text \<open>
  C9.  When the response carries a (non-empty) token, the write of the token to the
  storage comes before the first user setter of the trace, which adopts the response's
  user.  So when that user is \<open>undefined\<close> or \<open>null\<close> the storage holds the token
  afterwards, although reading the username then throws: the promise rejects with that
  error and the one notification is the destructive "Login failed" toast.
\<close>

theorem login_token_before_user:
  assumes "data_token d = Defined t" and "t \<noteq> []"
  shows "LocalStorageSetItem ''token'' t
           \<in> set (takeWhile (\<lambda>e. \<not> is_set_user e) (fst (login P credentials (Resolved d))))
    \<and> SetUser (data_user d) \<in> set (fst (login P credentials (Resolved d)))
    \<and> (data_user d = Undefined \<or> data_user d = Null \<longrightarrow>
         localStorage (exec (fst (login P credentials (Resolved d))) w) ''token'' = Some t
         \<and> snd (login P credentials (Resolved d)) = Rejected (cannot_read_username P (data_user d))
         \<and> filter is_toast (fst (login P credentials (Resolved d))) =
             [Toast \<lparr>title = js ''Login failed'',
                     description = or_else (message (cannot_read_username P (data_user d)))
                                     (js ''An error occurred during login''),
                     variant = Destructive\<rparr>])"
proof (cases "data_user d")
  case (Defined u)
  with assms show ?thesis by (simp add: login_ok)
next
  case Undefined
  with assms show ?thesis by (simp add: login_no_user)
next
  case Null
  with assms show ?thesis by (simp add: login_no_user)
qed

theorem login_token_before_user_witness:
  "data_token \<lparr>data_token = Defined (js ''t1''), data_user = Undefined\<rparr> = Defined (js ''t1'')
   \<and> js ''t1'' \<noteq> []
   \<and> data_user \<lparr>data_token = Defined (js ''t1''), data_user = Undefined\<rparr> = Undefined
   \<and> localStorage
        (exec (fst (login sample_platform sample_credentials
                      (Resolved \<lparr>data_token = Defined (js ''t1''), data_user = Undefined\<rparr>)))
           sample_world) ''token'' = Some (js ''t1'')
   \<and> snd (login sample_platform sample_credentials
            (Resolved \<lparr>data_token = Defined (js ''t1''), data_user = Undefined\<rparr>))
       = Rejected (new_Error (js ''Cannot read properties of undefined''))"
  using login_token_before_user
    [of "\<lparr>data_token = Defined (js ''t1''), data_user = Undefined\<rparr>" "js ''t1''"
        sample_platform sample_credentials sample_world]
  by (simp add: sample_platform_def)

text \<open>
  C10.  A login whose request rejects or whose response has no usable token, and a
  register whose request rejects, run no user setter: the user state afterwards is the
  user state before, and the promise rejects.
\<close>

theorem failed_request_keeps_user:
  "(r = Rejected error \<or> (\<exists>d. r = Resolved d \<and> \<not> truthy_string (data_token d)) \<longrightarrow>
      filter is_set_user (fst (login P credentials r)) = []
      \<and> user (exec (fst (login P credentials r)) w) = user w
      \<and> (\<exists>e. snd (login P credentials r) = Rejected e))
   \<and> filter is_set_user (fst (register P rcredentials (Rejected error))) = []
   \<and> user (exec (fst (register P rcredentials (Rejected error))) w) = user w
   \<and> snd (register P rcredentials (Rejected error)) = Rejected error"
  by (auto simp add: login_Rejected login_no_token register_Rejected)

theorem failed_request_keeps_user_witness:
  "\<not> truthy_string (data_token \<lparr>data_token = Undefined, data_user = Defined ash\<rparr>)
   \<and> filter is_set_user
        (fst (login sample_platform sample_credentials
                (Resolved \<lparr>data_token = Undefined, data_user = Defined ash\<rparr>))) = []
   \<and> user (exec (fst (login sample_platform sample_credentials
                         (Resolved \<lparr>data_token = Undefined, data_user = Defined ash\<rparr>)))
              sample_world) = Null"
  using failed_request_keeps_user
    [of "Resolved \<lparr>data_token = Undefined, data_user = Defined ash\<rparr>" "new_Error []"
        sample_platform sample_credentials sample_world]
  by (simp add: sample_world_def initial_world_def)

section \<open>The credential form: verified properties\<close>

text \<open>
  C2.  Submitting a login form with an empty email or password, or a register form with
  an empty field, runs exactly three effects: the default is prevented, the error map
  is replaced by the validation result and the server error is cleared.  Neither
  \<open>login\<close> nor \<open>register\<close> is called, so no network call is made, and the keys of the
  error map afterwards are exactly the keys of the violated rules.
\<close>

theorem submit_blocked_by_empty_field:
  "(login_email (loginForm w) = [] \<or> login_password (loginForm w) = [] \<longrightarrow>
      handleLoginSubmit P w r =
        [PreventDefault, SetFormErrors (validateLoginForm (loginForm w)), SetServerError None]
      \<and> filter is_network (handleLoginSubmit P w r) = []
      \<and> set (Object_keys (formErrors (exec (handleLoginSubmit P w r) w)))
          = login_violated_keys (loginForm w))
   \<and> (reg_username (registerForm w) = [] \<or> reg_email (registerForm w) = [] \<or>
       reg_password (registerForm w) = [] \<or> reg_confirmPassword (registerForm w) = [] \<longrightarrow>
      handleRegisterSubmit P w r =
        [PreventDefault, SetFormErrors (validateRegisterForm (registerForm w)),
         SetServerError None]
      \<and> filter is_network (handleRegisterSubmit P w r) = []
      \<and> set (Object_keys (formErrors (exec (handleRegisterSubmit P w r) w)))
          = register_violated_keys (registerForm w))"
proof (intro conjI impI)
  assume "login_email (loginForm w) = [] \<or> login_password (loginForm w) = []"
  then have "validateLoginForm (loginForm w) \<noteq> []"
    by (simp add: validateLoginForm_Nil)
  then have eq: "handleLoginSubmit P w r =
      [PreventDefault, SetFormErrors (validateLoginForm (loginForm w)), SetServerError None]"
    by (rule handleLoginSubmit_blocked)
  show "handleLoginSubmit P w r =
      [PreventDefault, SetFormErrors (validateLoginForm (loginForm w)), SetServerError None]"
    by (rule eq)
  show "filter is_network (handleLoginSubmit P w r) = []"
    by (simp add: eq)
  show "set (Object_keys (formErrors (exec (handleLoginSubmit P w r) w)))
          = login_violated_keys (loginForm w)"
    by (simp add: eq validateLoginForm_keys)
next
  assume "reg_username (registerForm w) = [] \<or> reg_email (registerForm w) = [] \<or>
       reg_password (registerForm w) = [] \<or> reg_confirmPassword (registerForm w) = []"
  then have "validateRegisterForm (registerForm w) \<noteq> []"
    by (auto simp add: validateRegisterForm_Nil)
  then have eq: "handleRegisterSubmit P w r =
      [PreventDefault, SetFormErrors (validateRegisterForm (registerForm w)),
       SetServerError None]"
    by (rule handleRegisterSubmit_blocked)
  show "handleRegisterSubmit P w r =
      [PreventDefault, SetFormErrors (validateRegisterForm (registerForm w)),
       SetServerError None]"
    by (rule eq)
  show "filter is_network (handleRegisterSubmit P w r) = []"
    by (simp add: eq)
  show "set (Object_keys (formErrors (exec (handleRegisterSubmit P w r) w)))
          = register_violated_keys (registerForm w)"
    by (simp add: eq validateRegisterForm_keys)
qed

theorem submit_blocked_by_empty_field_witness:
  "login_password (loginForm half_filled_world) = []
   \<and> handleLoginSubmit sample_platform half_filled_world
        (Resolved \<lparr>data_token = Defined (js ''t1''), data_user = Defined ash\<rparr>)
       = [PreventDefault, SetFormErrors [(''password'', js ''Password is required'')],
          SetServerError None]
   \<and> login_violated_keys (loginForm half_filled_world) = {''password''}
   \<and> reg_password (registerForm half_filled_world) = []
   \<and> handleRegisterSubmit sample_platform half_filled_world
        (Resolved \<lparr>data_token = Defined (js ''t1''), data_user = Defined ash\<rparr>)
       = [PreventDefault, SetFormErrors [(''password'', js ''Password is required'')],
          SetServerError None]
   \<and> register_violated_keys (registerForm half_filled_world) = {''password''}"
proof -
  have l: "validateLoginForm (loginForm half_filled_world)
             = [(''password'', js ''Password is required'')]"
    by code_simp
  have r: "validateRegisterForm (registerForm half_filled_world)
             = [(''password'', js ''Password is required'')]"
    by code_simp
  have e: "login_password (loginForm half_filled_world) = []"
    "reg_password (registerForm half_filled_world) = []"
    by (simp_all add: half_filled_world_def)
  note blocked = submit_blocked_by_empty_field
      [of half_filled_world sample_platform
          "Resolved \<lparr>data_token = Defined (js ''t1''), data_user = Defined ash\<rparr>"]
  from blocked e have hl:
    "handleLoginSubmit sample_platform half_filled_world
        (Resolved \<lparr>data_token = Defined (js ''t1''), data_user = Defined ash\<rparr>)
       = [PreventDefault, SetFormErrors (validateLoginForm (loginForm half_filled_world)),
          SetServerError None]"
    and kl:
    "set (Object_keys (formErrors (exec (handleLoginSubmit sample_platform half_filled_world
        (Resolved \<lparr>data_token = Defined (js ''t1''), data_user = Defined ash\<rparr>))
        half_filled_world))) = login_violated_keys (loginForm half_filled_world)"
    and hr:
    "handleRegisterSubmit sample_platform half_filled_world
        (Resolved \<lparr>data_token = Defined (js ''t1''), data_user = Defined ash\<rparr>)
       = [PreventDefault, SetFormErrors (validateRegisterForm (registerForm half_filled_world)),
          SetServerError None]"
    and kr:
    "set (Object_keys (formErrors (exec (handleRegisterSubmit sample_platform half_filled_world
        (Resolved \<lparr>data_token = Defined (js ''t1''), data_user = Defined ash\<rparr>))
        half_filled_world))) = register_violated_keys (registerForm half_filled_world)"
    by blast+
  have "login_violated_keys (loginForm half_filled_world) = {''password''}"
    unfolding kl [symmetric] hl by (simp add: l Object_keys_def)
  moreover have "register_violated_keys (registerForm half_filled_world) = {''password''}"
    unfolding kr [symmetric] hr by (simp add: r Object_keys_def)
  ultimately show ?thesis
    using e hl hr by (simp add: l r)
qed

text \<open>
  C3.  Register validation.  The error map has the key \<open>email\<close> exactly when the email
  is empty or does not contain the shape \<open>text@text.text\<close> (as the source's unanchored
  pattern reads it: the shape may stand anywhere in the string), the key \<open>password\<close>
  exactly when the password is empty or has fewer than 6 code units, and the key
  \<open>confirmPassword\<close> exactly when the confirmation differs from the password.  With a
  username, a well-shaped email, password \<open>abcdef\<close> and confirmation \<open>abcdeg\<close> the error
  map is the single entry for \<open>confirmPassword\<close>.
\<close>

theorem validateRegisterForm_rules:
  "(''email'' \<in> set (Object_keys (validateRegisterForm f)) \<longleftrightarrow>
      reg_email f = [] \<or> \<not> text_at_text_dot_text (reg_email f))
   \<and> (''password'' \<in> set (Object_keys (validateRegisterForm f)) \<longleftrightarrow>
      reg_password f = [] \<or> length (reg_password f) < 6)
   \<and> (''confirmPassword'' \<in> set (Object_keys (validateRegisterForm f)) \<longleftrightarrow>
      reg_confirmPassword f \<noteq> reg_password f)
   \<and> (reg_username f \<noteq> [] \<and> reg_email f \<noteq> [] \<and> text_at_text_dot_text (reg_email f) \<and>
      reg_password f = js ''abcdef'' \<and> reg_confirmPassword f = js ''abcdeg'' \<longrightarrow>
      validateRegisterForm f = [(''confirmPassword'', js ''Passwords do not match'')])"
proof (intro conjI impI)
  show "''email'' \<in> set (Object_keys (validateRegisterForm f)) \<longleftrightarrow>
      reg_email f = [] \<or> \<not> text_at_text_dot_text (reg_email f)"
    unfolding validateRegisterForm_keys in_register_violated_keys by simp
  show "''password'' \<in> set (Object_keys (validateRegisterForm f)) \<longleftrightarrow>
      reg_password f = [] \<or> length (reg_password f) < 6"
    unfolding validateRegisterForm_keys in_register_violated_keys by simp
  show "''confirmPassword'' \<in> set (Object_keys (validateRegisterForm f)) \<longleftrightarrow>
      reg_confirmPassword f \<noteq> reg_password f"
    unfolding validateRegisterForm_keys in_register_violated_keys by simp
next
  assume a: "reg_username f \<noteq> [] \<and> reg_email f \<noteq> [] \<and> text_at_text_dot_text (reg_email f) \<and>
      reg_password f = js ''abcdef'' \<and> reg_confirmPassword f = js ''abcdeg''"
  then have "regex_test email_regex (reg_email f)"
    by (simp add: email_regex_shape)
  moreover have "js ''abcdef'' \<noteq> js ''abcdeg''" "length (js ''abcdef'') = 6"
    by (simp_all add: js_def)
  ultimately show "validateRegisterForm f = [(''confirmPassword'', js ''Passwords do not match'')]"
    using a by (simp add: validateRegisterForm_def Let_def)
qed

theorem validateRegisterForm_rules_witness:
  "reg_username mismatched_form \<noteq> [] \<and> reg_email mismatched_form \<noteq> []
   \<and> text_at_text_dot_text (reg_email mismatched_form)
   \<and> reg_password mismatched_form = js ''abcdef''
   \<and> reg_confirmPassword mismatched_form = js ''abcdeg''
   \<and> validateRegisterForm mismatched_form
       = [(''confirmPassword'', js ''Passwords do not match'')]
   \<and> ''email'' \<notin> set (Object_keys (validateRegisterForm mismatched_form))
   \<and> ''password'' \<notin> set (Object_keys (validateRegisterForm mismatched_form))"
proof -
  have "regex_test email_regex (reg_email mismatched_form)"
    by code_simp
  then have shape: "text_at_text_dot_text (reg_email mismatched_form)"
    by (simp only: email_regex_shape)
  have fields: "reg_username mismatched_form \<noteq> []" "reg_email mismatched_form \<noteq> []"
    "reg_password mismatched_form = js ''abcdef''"
    "reg_confirmPassword mismatched_form = js ''abcdeg''"
    by (simp_all add: mismatched_form_def)
  from validateRegisterForm_rules [of mismatched_form] shape fields
  have "validateRegisterForm mismatched_form
          = [(''confirmPassword'', js ''Passwords do not match'')]"
    by blast
  with shape fields show ?thesis
    by (simp add: Object_keys_def)
qed

text \<open>
  C7, as the code has it.  Switching the tab changes nothing either tab renders.  Editing
  a field of one tab changes nothing the other tab renders.  A submit on one tab leaves
  the other tab's field values as they are.  The error map is one state cell read by
  both tabs: a submit on either tab replaces it by that tab's validation result.
\<close>

theorem tabs_share_only_errors:
  "login_tab_content (exec (onValueChange t) w) = login_tab_content w
   \<and> register_tab_content (exec (onValueChange t) w) = register_tab_content w
   \<and> register_tab_content (exec (onChangeLogin lf w val) w) = register_tab_content w
   \<and> login_tab_content (exec (onChangeRegister rf w val) w) = login_tab_content w
   \<and> registerForm (exec (handleLoginSubmit P w r) w) = registerForm w
   \<and> loginForm (exec (handleRegisterSubmit P w r) w) = loginForm w
   \<and> formErrors (exec (handleLoginSubmit P w r) w) = validateLoginForm (loginForm w)
   \<and> formErrors (exec (handleRegisterSubmit P w r) w) = validateRegisterForm (registerForm w)"
proof -
  have "register_tab_content (exec (onChangeLogin lf w val) w) = register_tab_content w"
    by (cases lf) (simp_all add: register_tab_content_def)
  moreover have "login_tab_content (exec (onChangeRegister rf w val) w) = login_tab_content w"
    by (cases rf) (simp_all add: login_tab_content_def)
  ultimately show ?thesis
    by (simp add: handleLoginSubmit_form_state handleRegisterSubmit_form_state
          onValueChange_def login_tab_content_def register_tab_content_def)
qed

text \<open>
  C7, as stated, fails.  In a fresh dialog, submitting the empty register form shows
  "Username is required" on the register tab; submitting the login form afterwards
  removes that error from what the register tab renders.
\<close>

theorem tabs_share_errors_counterexample:
  "rv_username_error (register_tab_content
       (exec (handleRegisterSubmit sample_platform sample_world (Rejected (new_Error [])))
          sample_world))
     = Some (js ''Username is required'')
   \<and> rv_username_error (register_tab_content
       (exec (handleLoginSubmit sample_platform
                (exec (handleRegisterSubmit sample_platform sample_world
                         (Rejected (new_Error []))) sample_world)
                (Rejected (new_Error [])))
          (exec (handleRegisterSubmit sample_platform sample_world (Rejected (new_Error [])))
             sample_world)))
     = None"
  by (simp add: handleRegisterSubmit_form_state handleLoginSubmit_form_state
        register_tab_content_def sample_world_def initial_world_def
        validateRegisterForm_def validateLoginForm_def Let_def)


end
